theory Spec2Isabelle
  imports Main "HOL-Library.Char_ord" "HOL-Library.List_Lexorder" "HOL-Library.Multiset"
begin

section \<open>Python values used by the inventory code\<close>

text \<open>
  A Python \<open>str\<close> is modelled as a \<open>string\<close> whose characters are the code points
  \<open>0..255\<close>; the order on strings is the lexicographic order on code points, as Python's
  comparison of \<open>str\<close> values. Python integers are unbounded and are modelled as \<open>int\<close>.
  An inventory item is a dict with the keys \<open>product_number\<close>, \<open>name\<close>, \<open>category\<close> and
  \<open>quantity\<close> (the shape the application documents for \<open>self.inventory\<close>). A file loaded
  from disk may lack any of the keys, so every field is optional: \<open>None\<close> is an absent key.
  Values are strings, which is what every entry widget delivers.
\<close>

datatype exn = ValueError | TypeError | KeyError | IndexError | TclError | OSError

record item =
  product_number :: "string option"
  name :: "string option"
  category :: "string option"
  quantity :: "string option"

text \<open>\<open>d.get(key, default)\<close> and \<open>d[key]\<close> on an optional field.\<close>

definition get_or :: "string option \<Rightarrow> string \<Rightarrow> string" where
  "get_or v dflt = (case v of None \<Rightarrow> dflt | Some s \<Rightarrow> s)"

definition getitem :: "string option \<Rightarrow> exn + string" where
  "getitem v = (case v of None \<Rightarrow> Inl KeyError | Some s \<Rightarrow> Inr s)"

text \<open>\<open>str.isspace\<close> on one character: the white space \<open>str.strip()\<close> removes.\<close>

definition py_isspace :: "char \<Rightarrow> bool" where
  "py_isspace c = (let n = (of_char c :: nat) in
     (9 \<le> n \<and> n \<le> 13) \<or> (28 \<le> n \<and> n \<le> 32) \<or> n = 133 \<or> n = 160)"

definition py_strip :: "string \<Rightarrow> string" where
  "py_strip s = rev (dropWhile py_isspace (rev (dropWhile py_isspace s)))"

text \<open>\<open>str.lower()\<close>: the upper-case letters below 256 are A-Z and U+00C0..U+00DE without
  the multiplication sign U+00D7; each maps to the code point 32 above it.\<close>

definition py_lower_char :: "char \<Rightarrow> char" where
  "py_lower_char c = (let n = (of_char c :: nat) in
     if (65 \<le> n \<and> n \<le> 90) \<or> (192 \<le> n \<and> n \<le> 222 \<and> n \<noteq> 215)
     then char_of (n + 32) else c)"

definition py_lower :: "string \<Rightarrow> string" where
  "py_lower s = map py_lower_char s"

text \<open>\<open>str.isdigit()\<close>: non-empty, and every character is a digit; below 256 these are
  0-9 and the superscripts U+00B2, U+00B3 and U+00B9.\<close>

definition py_isdigit_char :: "char \<Rightarrow> bool" where
  "py_isdigit_char c = (let n = (of_char c :: nat) in
     (48 \<le> n \<and> n \<le> 57) \<or> n = 178 \<or> n = 179 \<or> n = 185)"

definition py_isdigit :: "string \<Rightarrow> bool" where
  "py_isdigit s = (s \<noteq> [] \<and> list_all py_isdigit_char s)"

text \<open>\<open>int(s)\<close> on a string: surrounding white space is skipped, then an optional sign, then
  decimal digits 0-9 with single underscores allowed between digits. The superscript digits
  are not decimal: \<open>int\<close> rejects them.\<close>

definition is_decimal :: "char \<Rightarrow> bool" where
  "is_decimal c = (let n = (of_char c :: nat) in 48 \<le> n \<and> n \<le> 57)"

definition int_isspace :: "char \<Rightarrow> bool" where
  "int_isspace c = (let n = (of_char c :: nat) in
     (9 \<le> n \<and> n \<le> 13) \<or> n = 32 \<or> n = 133 \<or> n = 160)"

fun int_digits :: "string \<Rightarrow> string option" where
  "int_digits [] = None"
| "int_digits [c] = (if is_decimal c then Some [c] else None)"
| "int_digits (c # d # cs) =
     (if \<not> is_decimal c then None
      else if d = CHR ''_'' then map_option (Cons c) (int_digits cs)
      else map_option (Cons c) (int_digits (d # cs)))"

definition digits_value :: "string \<Rightarrow> int" where
  "digits_value ds = foldl (\<lambda>acc c. 10 * acc + (int (of_char c) - 48)) 0 ds"

definition int_of_str :: "string \<Rightarrow> int option" where
  "int_of_str s =
     (let t = rev (dropWhile int_isspace (rev (dropWhile int_isspace s))) in
      case t of
        [] \<Rightarrow> None
      | c # cs \<Rightarrow>
          if c = CHR ''-'' then map_option (\<lambda>ds. - digits_value ds) (int_digits cs)
          else if c = CHR ''+'' then map_option digits_value (int_digits cs)
          else map_option digits_value (int_digits t))"

text \<open>\<open>int(v)\<close> on the result of \<open>d.get(key)\<close>: \<open>int(None)\<close> is a TypeError, an unparseable
  string a ValueError.\<close>

definition py_int :: "string option \<Rightarrow> exn + int" where
  "py_int v = (case v of
       None \<Rightarrow> Inl TypeError
     | Some s \<Rightarrow> (case int_of_str s of None \<Rightarrow> Inl ValueError | Some n \<Rightarrow> Inr n))"

text \<open>\<open>str(v)\<close> on the result of \<open>d.get(key)\<close>, and \<open>str(n)\<close> on an integer.\<close>

definition py_str :: "string option \<Rightarrow> string" where
  "py_str v = (case v of None \<Rightarrow> ''None'' | Some s \<Rightarrow> s)"

fun nat_digits :: "nat \<Rightarrow> string" where
  "nat_digits n =
     (if n < 10 then [char_of (48 + n)]
      else nat_digits (n div 10) @ [char_of (48 + n mod 10)])"

declare nat_digits.simps [simp del]

definition str_of_int :: "int \<Rightarrow> string" where
  "str_of_int n = (if n < 0 then CHR ''-'' # nat_digits (nat (- n)) else nat_digits (nat n))"

text \<open>\<open>kw in s\<close> on strings, and \<open>xs.index(x)\<close> on lists (\<open>None\<close> is its ValueError).\<close>

fun starts_with :: "string \<Rightarrow> string \<Rightarrow> bool" where
  "starts_with s [] = True"
| "starts_with [] (k # ks) = False"
| "starts_with (c # cs) (k # ks) = (c = k \<and> starts_with cs ks)"

fun py_in :: "string \<Rightarrow> string \<Rightarrow> bool" where
  "py_in kw [] = (kw = [])"
| "py_in kw (c # cs) = (starts_with (c # cs) kw \<or> py_in kw cs)"

fun list_index :: "'a list \<Rightarrow> 'a \<Rightarrow> nat option" where
  "list_index [] x = None"
| "list_index (y # ys) x = (if y = x then Some 0 else map_option Suc (list_index ys x))"


section \<open>Algorithms: \<open>linear_search\<close> and \<open>bubble_sort\<close>\<close>

definition CATEGORY_ORDER :: "string list" where
  "CATEGORY_ORDER = [''Coating & Wax'', ''Maintenance'', ''Pads'', ''Accessories'']"

text \<open>The \<open>for i, item in enumerate(inventory)\<close> loop of \<open>linear_search\<close>, from position
  \<open>i\<close> on; \<open>-1\<close> is the not-found result.\<close>

fun linear_search_from :: "nat \<Rightarrow> item list \<Rightarrow> string \<Rightarrow> int" where
  "linear_search_from i [] target = - 1"
| "linear_search_from i (it # rest) target =
     (if py_lower (py_strip (get_or (name it) [])) = target then int i
      else linear_search_from (Suc i) rest target)"

definition linear_search :: "item list \<Rightarrow> string \<Rightarrow> int" where
  "linear_search inventory nm = linear_search_from 0 inventory (py_lower (py_strip nm))"

text \<open>The four keys \<open>sort_items\<close> lets through to \<open>bubble_sort\<close>.\<close>

datatype sort_key = Name | ProductNumber | Quantity | Category

text \<open>\<open>inventory[j].get(key)\<close>.\<close>

fun field :: "sort_key \<Rightarrow> item \<Rightarrow> string option" where
  "field Name it = name it"
| "field ProductNumber it = product_number it"
| "field Quantity it = quantity it"
| "field Category it = category it"

definition cat_index :: "string option \<Rightarrow> nat" where
  "cat_index val = (case list_index CATEGORY_ORDER (py_str val) of
       Some i \<Rightarrow> i
     | None \<Rightarrow> length CATEGORY_ORDER)"

text \<open>The test of the branch of \<open>key\<close> in the inner loop: whether \<open>a\<close> and \<open>b\<close> are swapped.
  For \<open>quantity\<close>, \<open>int(a)\<close> is evaluated before \<open>int(b)\<close> and either may raise.\<close>

fun out_of_order :: "sort_key \<Rightarrow> string option \<Rightarrow> string option \<Rightarrow> exn + bool" where
  "out_of_order Name a b = Inr (py_lower (py_str a) > py_lower (py_str b))"
| "out_of_order ProductNumber a b = Inr (py_lower (py_str a) > py_lower (py_str b))"
| "out_of_order Quantity a b =
     (case py_int a of
        Inl e \<Rightarrow> Inl e
      | Inr x \<Rightarrow> (case py_int b of Inl e \<Rightarrow> Inl e | Inr y \<Rightarrow> Inr (x > y)))"
| "out_of_order Category a b = Inr (cat_index a > cat_index b)"

text \<open>\<open>inventory[j], inventory[j + 1] = inventory[j + 1], inventory[j]\<close>.\<close>

definition swap_adjacent :: "item list \<Rightarrow> nat \<Rightarrow> item list" where
  "swap_adjacent inventory j = inventory[j := inventory ! (j + 1), j + 1 := inventory ! j]"

text \<open>
  The inner loop \<open>for j in range(0, n - i - 1)\<close>, from \<open>j\<close> up to \<open>stop = n - i - 1\<close>. The list
  is mutated in place, so a pass that raises leaves the list as it was at that moment.
  \<open>cnt\<close> counts the swaps; it is not in the source and only observes the run.
  \<open>bubble_sort\<close> calls the loop with \<open>stop < length inventory\<close>, so both reads are in range.
\<close>

datatype pass_result = PassDone "item list" bool nat | PassRaised exn "item list"

function inner_loop :: "sort_key \<Rightarrow> nat \<Rightarrow> nat \<Rightarrow> item list \<Rightarrow> bool \<Rightarrow> nat \<Rightarrow> pass_result" where
  "inner_loop key stop j inventory swapped cnt =
     (if j < stop then
        (case out_of_order key (field key (inventory ! j)) (field key (inventory ! (j + 1))) of
           Inl e \<Rightarrow> PassRaised e inventory
         | Inr True \<Rightarrow> inner_loop key stop (j + 1) (swap_adjacent inventory j) True (cnt + 1)
         | Inr False \<Rightarrow> inner_loop key stop (j + 1) inventory swapped cnt)
      else PassDone inventory swapped cnt)"
  by pat_completeness auto
termination
  by (relation "measure (\<lambda>(key, stop, j, inventory, swapped, cnt). stop - j)") auto

declare inner_loop.simps [simp del]

text \<open>
  The outer loop \<open>for i in range(n)\<close> with its \<open>break\<close> when a pass swapped nothing.
  \<open>swaps\<close> and \<open>passes\<close> count the swaps and the passes made so far (observers, as above).
\<close>

datatype sort_result = Sorted "item list" nat nat | SortRaised exn "item list"

function outer_loop :: "sort_key \<Rightarrow> nat \<Rightarrow> nat \<Rightarrow> item list \<Rightarrow> nat \<Rightarrow> nat \<Rightarrow> sort_result" where
  "outer_loop key n i inventory swaps passes =
     (if i < n then
        (case inner_loop key (n - i - 1) 0 inventory False 0 of
           PassRaised e inv' \<Rightarrow> SortRaised e inv'
         | PassDone inv' swapped cnt \<Rightarrow>
             if \<not> swapped then Sorted inv' (swaps + cnt) (passes + 1)
             else outer_loop key n (i + 1) inv' (swaps + cnt) (passes + 1))
      else Sorted inventory swaps passes)"
  by pat_completeness auto
termination
  by (relation "measure (\<lambda>(key, n, i, inventory, swaps, passes). n - i)") auto

declare outer_loop.simps [simp del]

definition bubble_sort :: "item list \<Rightarrow> sort_key \<Rightarrow> sort_result" where
  "bubble_sort inventory key = outer_loop key (length inventory) 0 inventory 0 0"


section \<open>The application: \<open>add_item\<close> and \<open>update_selected\<close>\<close>

text \<open>
  A callback of the application takes the inventory and the contents of the four entry
  widgets and ends in one of three ways: it completes, it shows a message box and returns
  early, or an exception leaves it. The inventory it leaves behind is returned with that.
  \<open>messagebox.askyesno\<close> is the user's answer, a parameter.
\<close>

datatype notice =
    NameAndQuantityRequired
  | QuantityMustBeInteger
  | ProductNumberRequired
  | AddCancelled
  | DuplicateProductNumber
  | SelectAnItem

datatype ending = Completed | Shown notice | Raised exn

text \<open>The loop \<open>for itm in self.inventory\<close> of \<open>add_item\<close> that looks for the product number.\<close>

fun product_number_exists :: "item list \<Rightarrow> string \<Rightarrow> bool" where
  "product_number_exists [] prodnum = False"
| "product_number_exists (itm # rest) prodnum =
     (if py_strip (get_or (product_number itm) []) = prodnum then True
      else product_number_exists rest prodnum)"

definition add_item ::
  "item list \<Rightarrow> string \<Rightarrow> string \<Rightarrow> string \<Rightarrow> string \<Rightarrow> bool \<Rightarrow> item list \<times> ending" where
  "add_item inventory name_entry cat_entry qty_entry product_entry askyesno =
     (let nm = py_strip name_entry;
          cat = py_strip cat_entry;
          qty = py_strip qty_entry;
          prodnum = py_strip product_entry
      in
      if nm = [] \<or> qty = [] then (inventory, Shown NameAndQuantityRequired)
      else if \<not> py_isdigit qty then (inventory, Shown QuantityMustBeInteger)
      else if prodnum = [] then (inventory, Shown ProductNumberRequired)
      else
        let idx = linear_search inventory nm in
        if idx \<noteq> - 1 then
          (if askyesno then
             (case getitem (quantity (inventory ! nat idx)) of
                Inl e \<Rightarrow> (inventory, Raised e)
              | Inr old \<Rightarrow>
                  (case int_of_str old of
                     None \<Rightarrow> (inventory, Raised ValueError)
                   | Some x \<Rightarrow>
                       (case int_of_str qty of
                          None \<Rightarrow> (inventory, Raised ValueError)
                        | Some y \<Rightarrow>
                            (inventory[nat idx :=
                               (inventory ! nat idx)\<lparr>quantity := Some (str_of_int (x + y))\<rparr>],
                             Completed))))
           else (inventory, Shown AddCancelled))
        else if prodnum \<noteq> [] \<and> product_number_exists inventory prodnum
          then (inventory, Shown DuplicateProductNumber)
        else
          (inventory @ [\<lparr>product_number = Some prodnum, name = Some nm,
                          category = Some cat, quantity = Some qty\<rparr>],
           Completed))"

text \<open>The loop \<open>for i, it in enumerate(self.inventory)\<close> of \<open>update_selected\<close>, from position
  \<open>i\<close> on: whether a record other than the one at \<open>idx\<close> has the product number.\<close>

fun clashes_with_other :: "nat \<Rightarrow> item list \<Rightarrow> nat \<Rightarrow> string \<Rightarrow> bool" where
  "clashes_with_other i [] idx prodnum = False"
| "clashes_with_other i (it # rest) idx prodnum =
     (if i \<noteq> idx \<and> py_strip (get_or (product_number it) []) = prodnum then True
      else clashes_with_other (Suc i) rest idx prodnum)"

text \<open>
  \<open>update_selected\<close>: \<open>sel\<close> is the result of \<open>_get_selected_index()\<close>. \<open>item\<close> is a reference
  to the record in the list, so each assignment to it changes the inventory at once, before
  the checks that follow it.
\<close>

definition update_selected ::
  "item list \<Rightarrow> nat option \<Rightarrow> string \<Rightarrow> string \<Rightarrow> string \<Rightarrow> string \<Rightarrow> item list \<times> ending" where
  "update_selected inventory sel name_entry cat_entry qty_entry product_entry =
     (case sel of
        None \<Rightarrow> (inventory, Shown SelectAnItem)
      | Some idx \<Rightarrow>
          let nm = py_strip name_entry;
              cat = py_strip cat_entry;
              qty = py_strip qty_entry;
              prodnum = py_strip product_entry
          in
          if \<not> idx < length inventory then (inventory, Raised IndexError)
          else
            let inv1 = (if nm \<noteq> [] then inventory[idx := (inventory ! idx)\<lparr>name := Some nm\<rparr>]
                        else inventory);
                inv2 = (if cat \<noteq> [] then inv1[idx := (inv1 ! idx)\<lparr>category := Some cat\<rparr>]
                        else inv1)
            in
            if prodnum \<noteq> [] \<and> clashes_with_other 0 inv2 idx prodnum
              then (inv2, Shown DuplicateProductNumber)
            else
              let inv3 = (if prodnum \<noteq> []
                          then inv2[idx := (inv2 ! idx)\<lparr>product_number := Some prodnum\<rparr>]
                          else inv2)
              in
              if qty \<noteq> [] then
                (if \<not> py_isdigit qty then (inv3, Shown QuantityMustBeInteger)
                 else (inv3[idx := (inv3 ! idx)\<lparr>quantity := Some qty\<rparr>], Completed))
              else (inv3, Completed))"

text \<open>Invariant I1 of the data model: the non-empty product numbers of the inventory are
  pairwise different.\<close>

fun nonempty_product_numbers :: "item list \<Rightarrow> string list" where
  "nonempty_product_numbers [] = []"
| "nonempty_product_numbers (it # rest) =
     (case product_number it of
        None \<Rightarrow> nonempty_product_numbers rest
      | Some p \<Rightarrow> if p = [] then nonempty_product_numbers rest
                  else p # nonempty_product_numbers rest)"

definition unique_product_numbers :: "item list \<Rightarrow> bool" where
  "unique_product_numbers inventory = distinct (nonempty_product_numbers inventory)"


section \<open>Filtered views: \<open>realtime_filter\<close>, \<open>filter_by_category\<close>, \<open>refresh_treeview\<close>\<close>

text \<open>
  The Treeview is the list of its rows, each with its item identifier and its four values.
  An identifier is either the one the code passes (\<open>iid=str(i)\<close>) or one the widget makes
  up when none is passed. \<open>tree.insert\<close> with an identifier that a row already has raises
  \<open>TclError\<close>.
\<close>

datatype iid = Given string | Generated nat

type_synonym row = "iid \<times> string \<times> string \<times> string \<times> string"

definition row_values :: "item \<Rightarrow> string \<times> string \<times> string \<times> string" where
  "row_values it =
     (get_or (product_number it) [], get_or (name it) [],
      get_or (category it) [], get_or (quantity it) ''0'')"

text \<open>The branch \<open>data is None\<close>: \<open>for i, item in enumerate(self.inventory)\<close>, from \<open>i\<close> on.\<close>

fun insert_full :: "nat \<Rightarrow> item list \<Rightarrow> row list \<Rightarrow> row list" where
  "insert_full i [] tree = tree"
| "insert_full i (it # rest) tree =
     insert_full (Suc i) rest (tree @ [(Given (str_of_int (int i)), row_values it)])"

text \<open>The branch for a filtered list: \<open>for item in data\<close>, with
  \<open>i = self.inventory.index(item)\<close>, which compares dicts by their contents.\<close>

fun insert_filtered :: "item list \<Rightarrow> item list \<Rightarrow> row list \<Rightarrow> row list \<times> exn option" where
  "insert_filtered inventory [] tree = (tree, None)"
| "insert_filtered inventory (it # rest) tree =
     (case list_index inventory it of
        Some i \<Rightarrow>
          if Given (str_of_int (int i)) \<in> set (map fst tree) then (tree, Some TclError)
          else insert_filtered inventory rest
                 (tree @ [(Given (str_of_int (int i)), row_values it)])
      | None \<Rightarrow>
          insert_filtered inventory rest (tree @ [(Generated (length tree), row_values it)]))"

definition refresh_treeview :: "item list \<Rightarrow> item list option \<Rightarrow> row list \<times> exn option" where
  "refresh_treeview inventory data =
     (case data of
        None \<Rightarrow> (insert_full 0 inventory [], None)
      | Some filtered \<Rightarrow> insert_filtered inventory filtered [])"

definition realtime_filter :: "item list \<Rightarrow> string \<Rightarrow> row list \<times> exn option" where
  "realtime_filter inventory search_var =
     (let keyword = py_lower (py_strip search_var) in
      if keyword = [] then refresh_treeview inventory None
      else refresh_treeview inventory
             (Some (filter (\<lambda>it. py_in keyword (py_lower (get_or (name it) []))
                               \<or> py_in keyword (py_lower (get_or (product_number it) [])))
                      inventory)))"

text \<open>\<open>filter_by_category\<close> once the dialog has returned the non-empty selection \<open>sel\<close>.\<close>

definition filter_by_category :: "item list \<Rightarrow> string \<Rightarrow> row list \<times> exn option" where
  "filter_by_category inventory sel =
     refresh_treeview inventory
       (Some (filter (\<lambda>it. py_lower (py_strip (get_or (category it) [])) = py_lower sel)
                inventory))"


section \<open>Storage: \<open>save_to_file\<close> and \<open>load_from_file\<close>\<close>

text \<open>
  \<open>json.dump\<close> and \<open>json.load\<close> belong to Python's library, not to the application. A file
  is modelled by the JSON document it holds, or as malformed text that \<open>json.load\<close> rejects.
  The file system says for each path whether creating its directory, opening it for writing,
  opening it for reading and replacing it fail; these are the operations by which the code
  can raise \<open>OSError\<close>.
\<close>

datatype json =
    JNull | JBool bool | JNum int | JStr string
  | JList "json list" | JDict "(string \<times> json) list"

datatype content = Document json | Malformed

record filesystem =
  files :: "string \<rightharpoonup> content"
  makedirs_fails :: "string \<Rightarrow> bool"
  open_write_fails :: "string \<Rightarrow> bool"
  open_read_fails :: "string \<Rightarrow> bool"
  replace_fails :: "string \<Rightarrow> bool"

text \<open>The direct write \<open>with open(path, "w") ...: json.dump(...)\<close>.\<close>

definition write_json :: "filesystem \<Rightarrow> string \<Rightarrow> json \<Rightarrow> filesystem \<times> exn option" where
  "write_json fs path payload =
     (if open_write_fails fs path then (fs, Some OSError)
      else (fs\<lparr>files := (files fs)(path \<mapsto> Document payload)\<rparr>, None))"







section \<open>Notions used to state the properties\<close>

text \<open>A record matches a searched name when the two agree after \<open>strip()\<close> and \<open>lower()\<close>.\<close>

definition name_matches :: "item \<Rightarrow> string \<Rightarrow> bool" where
  "name_matches it nm = (py_lower (py_strip (get_or (name it) [])) = py_lower (py_strip nm))"

text \<open>A small inventory on which the theorems below are instantiated.\<close>

definition demo_inventory :: "item list" where
  "demo_inventory =
     [\<lparr>product_number = Some ''P1'', name = Some ''Zeta'',
        category = Some ''Pads'', quantity = Some ''1''\<rparr>,
      \<lparr>product_number = Some ''P2'', name = Some ''Wax A'',
        category = Some ''Coating & Wax'', quantity = Some ''5''\<rparr>,
      \<lparr>product_number = Some ''P3'', name = Some '' wax a'',
        category = Some ''Maintenance'', quantity = Some ''2''\<rparr>]"

text \<open>
  Under a sort key, \<open>a\<close> is not greater than \<open>b\<close> when the test of \<open>bubble_sort\<close> for the
  pair evaluates, without raising, to \<open>False\<close>; two records are equal under the key when
  neither is greater than the other.
\<close>

definition not_greater :: "sort_key \<Rightarrow> item \<Rightarrow> item \<Rightarrow> bool" where
  "not_greater key a b = (out_of_order key (field key a) (field key b) = Inr False)"





text \<open>An inventory in which the first and the last record are the same dict, as a file
  edited by hand can hold, and a disk with no files on which no operation fails.\<close>

definition twin_inventory :: "item list" where
  "twin_inventory =
     [\<lparr>product_number = Some ''W1'', name = Some ''Wax A'',
        category = Some ''Coating & Wax'', quantity = Some ''5''\<rparr>,
      \<lparr>product_number = Some ''P1'', name = Some ''Foam Pad'',
        category = Some ''Pads'', quantity = Some ''2''\<rparr>,
      \<lparr>product_number = Some ''W1'', name = Some ''Wax A'',
        category = Some ''Coating & Wax'', quantity = Some ''5''\<rparr>]"



section \<open>Linear search\<close>

lemma linear_search_from_result:
  "(linear_search_from k xs t = - 1
      \<and> (\<forall>i<length xs. py_lower (py_strip (get_or (name (xs ! i)) [])) \<noteq> t))
   \<or> (\<exists>i<length xs. linear_search_from k xs t = int (k + i)
         \<and> py_lower (py_strip (get_or (name (xs ! i)) [])) = t
         \<and> (\<forall>j<i. py_lower (py_strip (get_or (name (xs ! j)) [])) \<noteq> t))"
proof (induction xs arbitrary: k)
  case Nil
  then show ?case by simp
next
  case (Cons x xs)
  show ?case
  proof (cases "py_lower (py_strip (get_or (name x) [])) = t")
    case True
    then have "linear_search_from k (x # xs) t = int (k + 0)" by simp
    with True show ?thesis by (intro disjI2 exI[of _ 0]) simp
  next
    case False
    from Cons.IH[of "Suc k"] show ?thesis
    proof
      assume a: "linear_search_from (Suc k) xs t = - 1 \<and>
        (\<forall>i<length xs. py_lower (py_strip (get_or (name (xs ! i)) [])) \<noteq> t)"
      have "\<forall>i<length (x # xs). py_lower (py_strip (get_or (name ((x # xs) ! i)) [])) \<noteq> t"
        using a False by (auto simp: nth_Cons split: nat.splits)
      with a False show ?thesis by simp
    next
      assume "\<exists>i<length xs. linear_search_from (Suc k) xs t = int (Suc k + i)
         \<and> py_lower (py_strip (get_or (name (xs ! i)) [])) = t
         \<and> (\<forall>j<i. py_lower (py_strip (get_or (name (xs ! j)) [])) \<noteq> t)"
      then obtain i where i: "i < length xs"
         "linear_search_from (Suc k) xs t = int (Suc k + i)"
         "py_lower (py_strip (get_or (name (xs ! i)) [])) = t"
         "\<forall>j<i. py_lower (py_strip (get_or (name (xs ! j)) [])) \<noteq> t" by blast
      have "\<forall>j<Suc i. py_lower (py_strip (get_or (name ((x # xs) ! j)) [])) \<noteq> t"
        using i(4) False by (auto simp: nth_Cons split: nat.splits)
      with i False show ?thesis
        by (intro disjI2 exI[of _ "Suc i"]) simp
    qed
  qed
qed

text \<open>
  Claim C4. \<open>linear_search\<close> is a total function (no branch of it raises). Either no record
  of the inventory matches the searched name and the result is the sentinel \<open>-1\<close>, or the
  result is the position of a record whose stripped, lower-cased name equals the stripped,
  lower-cased searched name, and no record at a smaller position matches.
\<close>

theorem linear_search_first_match:
  "(linear_search inventory nm = - 1
      \<and> (\<forall>i<length inventory. \<not> name_matches (inventory ! i) nm))
   \<or> (\<exists>i<length inventory. linear_search inventory nm = int i
         \<and> name_matches (inventory ! i) nm
         \<and> (\<forall>j<i. \<not> name_matches (inventory ! j) nm))"
  unfolding linear_search_def name_matches_def
  using linear_search_from_result[of 0 inventory "py_lower (py_strip nm)"] by simp

theorem linear_search_first_match_witness:
  "linear_search demo_inventory ''  WAX a '' = 1
   \<and> name_matches (demo_inventory ! 1) ''  WAX a ''
   \<and> \<not> name_matches (demo_inventory ! 0) ''  WAX a ''"
proof -
  have ev: "linear_search demo_inventory ''  WAX a '' = 1" by code_simp
  from linear_search_first_match[of demo_inventory "''  WAX a ''"] ev
  obtain i where i: "i < length demo_inventory" "1 = int i"
     "name_matches (demo_inventory ! i) ''  WAX a ''"
     "\<forall>j<i. \<not> name_matches (demo_inventory ! j) ''  WAX a ''"
    by auto
  from i(2) have "i = 1" by simp
  with i ev show ?thesis by simp
qed


section \<open>Bubble sort: the passes\<close>


lemma swap_adjacent_length [simp]: "length (swap_adjacent xs j) = length xs"
  by (simp add: swap_adjacent_def)






text \<open>One step of the inner loop when the comparison does not raise.\<close>

lemma inner_loop_stop: "\<not> j < stop \<Longrightarrow> inner_loop key stop j xs sw c = PassDone xs sw c"
  by (simp add: inner_loop.simps)

lemma inner_loop_keep:
  "j < stop \<Longrightarrow> out_of_order key (field key (xs ! j)) (field key (xs ! (j + 1))) = Inr False \<Longrightarrow>
   inner_loop key stop j xs sw c = inner_loop key stop (j + 1) xs sw c"
  by (subst inner_loop.simps) simp






lemma outer_loop_stop: "\<not> i < n \<Longrightarrow> outer_loop key n i xs s p = Sorted xs s p"
  by (simp add: outer_loop.simps)




section \<open>Bubble sort: order and stability\<close>




text \<open>The comparison of each key, spelled out.\<close>
lemma not_greater_Name:
  "not_greater Name a b = (py_lower (py_str (name a)) \<le> py_lower (py_str (name b)))"
  by (auto simp: not_greater_def)

lemma not_greater_ProductNumber:
  "not_greater ProductNumber a b
     = (py_lower (py_str (product_number a)) \<le> py_lower (py_str (product_number b)))"
  by (auto simp: not_greater_def)

lemma not_greater_Category:
  "not_greater Category a b = (cat_index (category a) \<le> cat_index (category b))"
  by (auto simp: not_greater_def)

lemma not_greater_Quantity:
  "not_greater Quantity a b
     = (\<exists>x y. py_int (quantity a) = Inr x \<and> py_int (quantity b) = Inr y \<and> x \<le> y)"
  by (auto simp: not_greater_def split: sum.splits)

lemma cat_index_unknown: "py_str v \<notin> set CATEGORY_ORDER \<Longrightarrow> cat_index v = 4"
  by (auto simp: cat_index_def CATEGORY_ORDER_def)

lemma cat_index_known: "py_str v \<in> set CATEGORY_ORDER \<Longrightarrow> cat_index v < 4"
  by (auto simp: cat_index_def CATEGORY_ORDER_def)





section \<open>Bubble sort on an ordered inventory\<close>

lemma inner_loop_no_swap:
  assumes "\<forall>k. j \<le> k \<and> k < stop \<longrightarrow>
             out_of_order key (field key (xs ! k)) (field key (xs ! (k + 1))) = Inr False"
  shows "inner_loop key stop j xs sw c = PassDone xs sw c"
  using assms
proof (induction "stop - j" arbitrary: j)
  case 0
  then show ?case by (simp add: inner_loop_stop)
next
  case (Suc d)
  then have jlt: "j < stop" and d: "d = stop - (j + 1)" by simp_all
  have "inner_loop key stop j xs sw c = inner_loop key stop (j + 1) xs sw c"
    using jlt Suc.prems by (intro inner_loop_keep) auto
  also have "\<dots> = PassDone xs sw c"
    using Suc.prems by (intro Suc.hyps(1)[OF d]) auto
  finally show ?case .
qed

text \<open>
  Claim C8. On an inventory that is already ordered under the key's comparison,
  \<open>bubble_sort\<close> returns the inventory unchanged with a swap count of zero, after one pass
  (no pass at all when the inventory is empty, where \<open>range(n)\<close> is empty).
\<close>

theorem bubble_sort_already_ordered:
  assumes "sorted_wrt (not_greater key) inventory"
  shows "bubble_sort inventory key = Sorted inventory 0 (min 1 (length inventory))"
proof (cases "inventory = []")
  case True
  then show ?thesis by (simp add: bubble_sort_def outer_loop_stop)
next
  case False
  then have n: "0 < length inventory" by simp
  have adj: "\<forall>k. 0 \<le> k \<and> k < length inventory - 0 - 1 \<longrightarrow>
      out_of_order key (field key (inventory ! k)) (field key (inventory ! (k + 1))) = Inr False"
  proof (intro allI impI)
    fix k assume "0 \<le> k \<and> k < length inventory - 0 - 1"
    then have "k < k + 1" "k + 1 < length inventory" by simp_all
    with assms have "not_greater key (inventory ! k) (inventory ! (k + 1))"
      by (simp only: sorted_wrt_iff_nth_less)
    then show "out_of_order key (field key (inventory ! k)) (field key (inventory ! (k + 1)))
                 = Inr False"
      by (simp add: not_greater_def)
  qed
  have "inner_loop key (length inventory - 0 - 1) 0 inventory False 0 = PassDone inventory False 0"
    using adj by (rule inner_loop_no_swap)
  then have "outer_loop key (length inventory) 0 inventory 0 0 = Sorted inventory 0 1"
    using n by (subst outer_loop.simps) simp
  moreover have "min 1 (length inventory) = 1" using n by arith
  ultimately show ?thesis by (simp add: bubble_sort_def)
qed

theorem bubble_sort_already_ordered_witness:
  "sorted_wrt (not_greater Name) [demo_inventory ! 2, demo_inventory ! 1, demo_inventory ! 0]
   \<and> bubble_sort [demo_inventory ! 2, demo_inventory ! 1, demo_inventory ! 0] Name
       = Sorted [demo_inventory ! 2, demo_inventory ! 1, demo_inventory ! 0] 0 1"
proof -
  have hyp: "sorted_wrt (not_greater Name)
               [demo_inventory ! 2, demo_inventory ! 1, demo_inventory ! 0]"
    by code_simp
  from bubble_sort_already_ordered[OF hyp] hyp show ?thesis by simp
qed


section \<open>Sorting by quantity: when it raises\<close>










section \<open>Unique product numbers\<close>

lemma dropWhile_keeps: "xs \<noteq> [] \<Longrightarrow> \<not> P (hd xs) \<Longrightarrow> dropWhile P xs = xs"
  by (cases xs) auto

lemma py_strip_idem: "py_strip (py_strip s) = py_strip s"
proof -
  define u where "u = dropWhile py_isspace s"
  define v where "v = dropWhile py_isspace (rev u)"
  have t: "py_strip s = rev v" by (simp add: py_strip_def u_def v_def)
  show ?thesis
  proof (cases "v = []")
    case True
    with t have e: "py_strip s = []" by simp
    have "py_strip [] = []" by (simp add: py_strip_def)
    with e show ?thesis by simp
  next
    case False
    have hv: "\<not> py_isspace (hd v)" using False unfolding v_def by (rule hd_dropWhile)
    have une: "u \<noteq> []" using False by (auto simp: v_def)
    have hu: "\<not> py_isspace (hd u)" using une unfolding u_def by (rule hd_dropWhile)
    obtain w where w: "rev u = w @ v"
      unfolding v_def by (metis takeWhile_dropWhile_id)
    have "last v = last (rev u)" using w False by simp
    also have "\<dots> = hd u" using une by (simp add: last_rev)
    finally have lv: "\<not> py_isspace (last v)" using hu by simp
    have "hd (rev v) = last v" using False by (simp add: hd_rev)
    then have d1: "dropWhile py_isspace (rev v) = rev v"
      using lv False by (intro dropWhile_keeps) simp_all
    have d2: "dropWhile py_isspace v = v" using hv False by (intro dropWhile_keeps)
    show ?thesis unfolding t by (simp add: py_strip_def d1 d2)
  qed
qed

lemma npn_append:
  "nonempty_product_numbers (xs @ ys) = nonempty_product_numbers xs @ nonempty_product_numbers ys"
  by (induction xs) (auto split: option.splits)

lemma npn_set:
  "p \<in> set (nonempty_product_numbers xs)
     \<longleftrightarrow> p \<noteq> [] \<and> (\<exists>it\<in>set xs. product_number it = Some p)"
  by (induction xs) (auto split: option.splits)

lemma npn_same_numbers:
  "map product_number xs = map product_number ys \<Longrightarrow>
   nonempty_product_numbers xs = nonempty_product_numbers ys"
proof (induction xs arbitrary: ys)
  case Nil
  then show ?case by simp
next
  case (Cons x xs)
  then obtain y ys' where ys: "ys = y # ys'" by (cases ys) auto
  with Cons.prems have "product_number x = product_number y"
    "map product_number xs = map product_number ys'" by simp_all
  with Cons.IH[of ys'] ys show ?case by (simp split: option.splits)
qed

lemma numbers_update_same:
  "product_number r = product_number (xs ! i) \<Longrightarrow>
   map product_number (xs[i := r]) = map product_number xs"
  by (cases "i < length xs") (simp_all add: map_update list_update_same_conv list_update_beyond)

lemma product_number_exists_iff:
  "product_number_exists xs p \<longleftrightarrow> (\<exists>it\<in>set xs. py_strip (get_or (product_number it) []) = p)"
  by (induction xs) auto

lemma clashes_with_other_iff:
  "clashes_with_other k xs idx p
     \<longleftrightarrow> (\<exists>i<length xs. k + i \<noteq> idx \<and> py_strip (get_or (product_number (xs ! i)) []) = p)"
proof (induction xs arbitrary: k)
  case Nil
  then show ?case by simp
next
  case (Cons x xs)
  have "(\<exists>i<length (x # xs). k + i \<noteq> idx \<and> py_strip (get_or (product_number ((x # xs) ! i)) []) = p)
        \<longleftrightarrow> (k \<noteq> idx \<and> py_strip (get_or (product_number x) []) = p)
            \<or> (\<exists>i<length xs. Suc k + i \<noteq> idx \<and> py_strip (get_or (product_number (xs ! i)) []) = p)"
    (is "?L \<longleftrightarrow> ?A \<or> ?B")
  proof
    assume ?L
    then obtain i where i: "i < length (x # xs)" "k + i \<noteq> idx"
      "py_strip (get_or (product_number ((x # xs) ! i)) []) = p" by blast
    show "?A \<or> ?B"
    proof (cases i)
      case 0
      with i show ?thesis by simp
    next
      case (Suc i')
      with i have "i' < length xs \<and> Suc k + i' \<noteq> idx
        \<and> py_strip (get_or (product_number (xs ! i')) []) = p" by simp
      then show ?thesis by blast
    qed
  next
    assume "?A \<or> ?B"
    then show ?L
    proof
      assume ?A
      then show ?L by (intro exI[of _ 0]) simp
    next
      assume ?B
      then obtain i where "i < length xs" "Suc k + i \<noteq> idx"
        "py_strip (get_or (product_number (xs ! i)) []) = p" by blast
      then show ?L by (intro exI[of _ "Suc i"]) simp
    qed
  qed
  with Cons.IH[of "Suc k"] show ?case by auto
qed

lemma unique_append_new:
  assumes "unique_product_numbers xs" and "\<not> product_number_exists xs (py_strip e)"
    and "py_strip e \<noteq> []"
  shows "unique_product_numbers (xs @ [\<lparr>product_number = Some (py_strip e), name = n,
                                         category = c, quantity = q\<rparr>])"
proof -
  have "py_strip e \<notin> set (nonempty_product_numbers xs)"
  proof
    assume "py_strip e \<in> set (nonempty_product_numbers xs)"
    then obtain it where "it \<in> set xs" "product_number it = Some (py_strip e)"
      by (auto simp: npn_set)
    then have "product_number_exists xs (py_strip e)"
      by (auto simp: product_number_exists_iff get_or_def py_strip_idem intro!: bexI[of _ it])
    with assms(2) show False by simp
  qed
  with assms(1,3) show ?thesis by (simp add: unique_product_numbers_def npn_append)
qed

lemma unique_set_product_number:
  assumes "unique_product_numbers xs" and "idx < length xs"
    and "\<not> clashes_with_other 0 xs idx (py_strip e)" and "py_strip e \<noteq> []"
  shows "unique_product_numbers (xs[idx := (xs ! idx)\<lparr>product_number := Some (py_strip e)\<rparr>])"
proof -
  let ?A = "take idx xs" and ?B = "drop (Suc idx) xs"
  let ?r = "(xs ! idx)\<lparr>product_number := Some (py_strip e)\<rparr>"
  have xs: "xs = ?A @ xs ! idx # ?B" using assms(2) by (rule id_take_nth_drop)
  have up: "xs[idx := ?r] = ?A @ ?r # ?B" using assms(2) by (rule upd_conv_take_nth_drop)
  have "distinct (nonempty_product_numbers (?A @ xs ! idx # ?B))"
    using assms(1) xs by (simp add: unique_product_numbers_def)
  then have dA: "distinct (nonempty_product_numbers ?A)"
    and dB: "distinct (nonempty_product_numbers ?B)"
    and dAB: "set (nonempty_product_numbers ?A) \<inter> set (nonempty_product_numbers ?B) = {}"
    by (auto simp: npn_append split: option.splits if_splits)
  have other: "py_strip (get_or (product_number (xs ! i)) []) \<noteq> py_strip e"
    if "i < length xs" "i \<noteq> idx" for i
    using assms(3) that by (auto simp: clashes_with_other_iff)
  have nA: "py_strip e \<notin> set (nonempty_product_numbers ?A)"
  proof
    assume "py_strip e \<in> set (nonempty_product_numbers ?A)"
    then obtain it where it: "it \<in> set ?A" "product_number it = Some (py_strip e)"
      by (auto simp: npn_set)
    then obtain i where i: "i < length ?A" "?A ! i = it" by (auto simp: in_set_conv_nth)
    then have "i < length xs" "i \<noteq> idx" "xs ! i = it" using assms(2) by auto
    with other[of i] it(2) show False by (simp add: get_or_def py_strip_idem)
  qed
  have nB: "py_strip e \<notin> set (nonempty_product_numbers ?B)"
  proof
    assume "py_strip e \<in> set (nonempty_product_numbers ?B)"
    then obtain it where it: "it \<in> set ?B" "product_number it = Some (py_strip e)"
      by (auto simp: npn_set)
    then obtain i where i: "i < length ?B" "?B ! i = it" by (auto simp: in_set_conv_nth)
    then have "Suc idx + i < length xs" "Suc idx + i \<noteq> idx" "xs ! (Suc idx + i) = it"
      using assms(2) by auto
    with other[of "Suc idx + i"] it(2) show False by (simp add: get_or_def py_strip_idem)
  qed
  have "distinct (nonempty_product_numbers (?A @ ?r # ?B))"
    using dA dB dAB nA nB assms(4) by (auto simp: npn_append)
  with up show ?thesis by (simp add: unique_product_numbers_def)
qed

lemma unique_same_numbers:
  "map product_number ys = map product_number xs \<Longrightarrow>
   unique_product_numbers xs \<Longrightarrow> unique_product_numbers ys"
  using npn_same_numbers[of ys xs] by (simp add: unique_product_numbers_def)

lemma add_item_unique:
  assumes "unique_product_numbers inventory"
  shows "unique_product_numbers (fst (add_item inventory n c q p a))"
proof -
  have q: "unique_product_numbers (inventory[i := (inventory ! i)\<lparr>quantity := v\<rparr>])" for i v
    by (rule unique_same_numbers[OF _ assms]) (simp add: numbers_update_same)
  show ?thesis
    unfolding add_item_def Let_def
    using assms q unique_append_new[OF assms]
    by (auto split: sum.splits option.splits)
qed

lemma update_selected_unique:
  assumes "unique_product_numbers inventory"
  shows "unique_product_numbers (fst (update_selected inventory sel n c q p))"
proof (cases sel)
  case None
  with assms show ?thesis by (simp add: update_selected_def)
next
  case (Some idx)
  show ?thesis
  proof (cases "idx < length inventory")
    case False
    with Some assms show ?thesis by (simp add: update_selected_def Let_def)
  next
    case True
    define inv1 where "inv1 = (if py_strip n \<noteq> []
        then inventory[idx := (inventory ! idx)\<lparr>name := Some (py_strip n)\<rparr>] else inventory)"
    define inv2 where "inv2 = (if py_strip c \<noteq> []
        then inv1[idx := (inv1 ! idx)\<lparr>category := Some (py_strip c)\<rparr>] else inv1)"
    define inv3 where "inv3 = (if py_strip p \<noteq> []
        then inv2[idx := (inv2 ! idx)\<lparr>product_number := Some (py_strip p)\<rparr>] else inv2)"
    have u1: "unique_product_numbers inv1"
      unfolding inv1_def using assms
      by (auto intro!: unique_same_numbers[OF _ assms] simp: numbers_update_same)
    have u2: "unique_product_numbers inv2"
      unfolding inv2_def using u1
      by (auto intro!: unique_same_numbers[OF _ u1] simp: numbers_update_same)
    have len2: "idx < length inv2" using True by (simp add: inv2_def inv1_def)
    have u3: "unique_product_numbers inv3"
      if "\<not> (py_strip p \<noteq> [] \<and> clashes_with_other 0 inv2 idx (py_strip p))"
      unfolding inv3_def using that u2 len2 by (auto intro: unique_set_product_number)
    have u4: "unique_product_numbers (inv3[idx := (inv3 ! idx)\<lparr>quantity := v\<rparr>])"
      if "unique_product_numbers inv3" for v
      by (rule unique_same_numbers[OF _ that]) (simp add: numbers_update_same)
    have "update_selected inventory sel n c q p =
       (if py_strip p \<noteq> [] \<and> clashes_with_other 0 inv2 idx (py_strip p)
          then (inv2, Shown DuplicateProductNumber)
        else if py_strip q \<noteq> [] then
          (if \<not> py_isdigit (py_strip q) then (inv3, Shown QuantityMustBeInteger)
           else (inv3[idx := (inv3 ! idx)\<lparr>quantity := Some (py_strip q)\<rparr>], Completed))
        else (inv3, Completed))"
      using Some True unfolding update_selected_def inv1_def inv2_def inv3_def
      by (simp add: Let_def)
    then show ?thesis using u2 u3 u4 by auto
  qed
qed

text \<open>
  Claim C2. If the non-empty product numbers of the inventory are pairwise different, they
  still are in the inventory that \<open>add_item\<close> leaves and in the inventory that
  \<open>update_selected\<close> leaves, whatever the entries, the selection and the user's answer, and
  however the callback ends.
\<close>

theorem add_update_keep_product_numbers_unique:
  assumes "unique_product_numbers inventory"
  shows "unique_product_numbers
           (fst (add_item inventory name_entry cat_entry qty_entry product_entry askyesno))
         \<and> unique_product_numbers
           (fst (update_selected inventory sel name_entry cat_entry qty_entry product_entry))"
  using add_item_unique[OF assms] update_selected_unique[OF assms] by simp

theorem add_update_keep_product_numbers_unique_witness:
  "unique_product_numbers demo_inventory
   \<and> unique_product_numbers (fst (add_item demo_inventory ''Foam'' ''Pads'' ''4'' ''P4'' False))
   \<and> unique_product_numbers
        (fst (update_selected demo_inventory (Some 0) [] [] [] ''P5''))"
proof -
  have hyp: "unique_product_numbers demo_inventory" by code_simp
  from add_update_keep_product_numbers_unique[OF hyp] hyp show ?thesis by blast
qed

text \<open>The scenarios of the specification: a product number that exists is refused by
  \<open>add_item\<close> and by \<open>update_selected\<close>, and a new one is accepted.\<close>

lemma add_item_duplicate_refused:
  "add_item demo_inventory ''Foam'' ''Pads'' ''4'' ''P1'' False
     = (demo_inventory, Shown DuplicateProductNumber)"
  by code_simp

lemma add_item_new_appended:
  "add_item demo_inventory ''Foam'' ''Pads'' ''4'' ''P4'' False
     = (demo_inventory @ [\<lparr>product_number = Some ''P4'', name = Some ''Foam'',
                             category = Some ''Pads'', quantity = Some ''4''\<rparr>], Completed)"
  by code_simp

lemma update_selected_duplicate_refused:
  "update_selected demo_inventory (Some 0) [] [] [] ''P2''
     = (demo_inventory, Shown DuplicateProductNumber)"
  by code_simp


section \<open>Merging on add\<close>





lemma linear_search_in_range:
  assumes "linear_search inventory nm = int idx"
  shows "idx < length inventory"
  using linear_search_from_result[of 0 inventory "py_lower (py_strip nm)"] assms
  by (auto simp: linear_search_def)



text \<open>
  Claim C10. On a confirmed merge the inventory that \<open>add_item\<close> leaves is the old one with
  at most the quantity of the matched record replaced: its length, every other record, and
  the name, category and product number of the matched record are as before. The result
  does not depend on the category and product number entered: any other category and any
  other non-empty product number, whether or not a record already has it, give the same
  result.
\<close>

theorem add_item_merge_frame:
  assumes "py_strip name_entry \<noteq> []"
    and "py_isdigit (py_strip qty_entry)"
    and "py_strip product_entry \<noteq> []"
    and "py_strip other_product \<noteq> []"
    and "linear_search inventory (py_strip name_entry) = int idx"
  shows "idx < length inventory
         \<and> (\<exists>q. fst (add_item inventory name_entry cat_entry qty_entry product_entry True)
                  = inventory[idx := (inventory ! idx)\<lparr>quantity := q\<rparr>])
         \<and> add_item inventory name_entry other_cat qty_entry other_product True
             = add_item inventory name_entry cat_entry qty_entry product_entry True"
proof -
  have q: "py_strip qty_entry \<noteq> []" using assms(2) by (auto simp: py_isdigit_def)
  have r: "idx < length inventory" using assms(5) by (rule linear_search_in_range)
  have same: "inventory = inventory[idx := (inventory ! idx)\<lparr>quantity := quantity (inventory ! idx)\<rparr>]"
    by simp
  have "\<exists>q. fst (add_item inventory name_entry cat_entry qty_entry product_entry True)
                  = inventory[idx := (inventory ! idx)\<lparr>quantity := q\<rparr>]"
  proof (cases "fst (add_item inventory name_entry cat_entry qty_entry product_entry True) = inventory")
    case True
    with same show ?thesis by metis
  next
    case False
    then show ?thesis
      unfolding add_item_def Let_def using assms q
      by (auto simp: getitem_def split: option.splits)
  qed
  moreover have "add_item inventory name_entry other_cat qty_entry other_product True
             = add_item inventory name_entry cat_entry qty_entry product_entry True"
    unfolding add_item_def Let_def using assms q by simp
  ultimately show ?thesis using r by blast
qed

theorem add_item_merge_frame_witness:
  "1 < length demo_inventory
   \<and> fst (add_item demo_inventory ''wax a'' ''Pads'' ''3'' ''P7'' True)
       = demo_inventory[1 := (demo_inventory ! 1)\<lparr>quantity := Some ''8''\<rparr>]
   \<and> add_item demo_inventory ''wax a'' ''Maintenance'' ''3'' ''P1'' True
       = add_item demo_inventory ''wax a'' ''Pads'' ''3'' ''P7'' True"
proof -
  have h: "py_strip ''wax a'' \<noteq> []" "py_isdigit (py_strip ''3'')" "py_strip ''P7'' \<noteq> []"
    "py_strip ''P1'' \<noteq> []"
    "linear_search demo_inventory (py_strip ''wax a'') = int 1"
    by code_simp+
  have ev: "fst (add_item demo_inventory ''wax a'' ''Pads'' ''3'' ''P7'' True)
       = demo_inventory[1 := (demo_inventory ! 1)\<lparr>quantity := Some ''8''\<rparr>]"
    by code_simp
  from add_item_merge_frame[OF h, of "''Pads''" "''Maintenance''"] ev show ?thesis by simp
qed


section \<open>Rejected updates\<close>

text \<open>
  Claim C1 does not hold of the code. \<open>update_selected\<close> writes the name and the category
  into the record before it checks the product number, and writes the product number before
  it checks the quantity, so an update that is refused has already changed the record.
  Here the product number \<open>P2\<close> belongs to another record: the update of record 0 is refused
  with the duplicate message, and the record has its new name and category all the same.
\<close>

theorem update_selected_refused_after_writes:
  "update_selected demo_inventory (Some 0) ''Omega'' ''Maintenance'' [] ''P2''
     = (demo_inventory[0 := (demo_inventory ! 0)\<lparr>name := Some ''Omega'',
                                                  category := Some ''Maintenance''\<rparr>],
        Shown DuplicateProductNumber)
   \<and> fst (update_selected demo_inventory (Some 0) ''Omega'' ''Maintenance'' [] ''P2'')
       \<noteq> demo_inventory"
  by code_simp

text \<open>The same with a quantity that is not numeric: the name, the category and the product
  number have been written when the update is refused.\<close>

lemma update_selected_refused_quantity_after_writes:
  "update_selected demo_inventory (Some 0) ''Omega'' ''Maintenance'' ''x1'' ''P8''
     = (demo_inventory[0 := (demo_inventory ! 0)\<lparr>name := Some ''Omega'',
                                                  category := Some ''Maintenance'',
                                                  product_number := Some ''P8''\<rparr>],
        Shown QuantityMustBeInteger)"
  by code_simp

text \<open>An update that is refused leaves the inventory as it was only when the name and the
  category entries are empty and the refusal is the one of the product number.\<close>

lemma update_selected_refused_unchanged:
  assumes "py_strip name_entry = []" and "py_strip cat_entry = []"
    and "update_selected inventory sel name_entry cat_entry qty_entry product_entry
           = (inv', Shown DuplicateProductNumber)"
  shows "inv' = inventory"
  using assms unfolding update_selected_def Let_def
  by (auto split: option.splits if_splits)


section \<open>Filtered views and inventory positions\<close>

lemma list_index_distinct:
  "distinct xs \<Longrightarrow> i < length xs \<Longrightarrow> list_index xs (xs ! i) = Some i"
proof (induction xs arbitrary: i)
  case Nil
  then show ?case by simp
next
  case (Cons x xs)
  show ?case
  proof (cases i)
    case 0
    then show ?thesis by simp
  next
    case (Suc j)
    with Cons.prems have "xs ! j \<noteq> x" "list_index xs (xs ! j) = Some j"
      using Cons.IH[of j] by auto
    with Suc show ?thesis by auto
  qed
qed

lemma list_index_first:
  "list_index xs x = Some i \<Longrightarrow> i < length xs \<and> xs ! i = x \<and> (\<forall>j<i. xs ! j \<noteq> x)"
proof (induction xs arbitrary: i)
  case Nil
  then show ?case by simp
next
  case (Cons y ys)
  show ?case
  proof (cases "y = x")
    case True
    with Cons.prems show ?thesis by simp
  next
    case False
    with Cons.prems obtain k where k: "list_index ys x = Some k" "i = Suc k" by auto
    from Cons.IH[OF k(1)] False k(2) show ?thesis
      by (auto simp: nth_Cons split: nat.splits)
  qed
qed

text \<open>
  Claim C7 does not hold of the code. \<open>refresh_treeview\<close> finds the position of a filtered
  record with \<open>self.inventory.index(item)\<close>, the first position of an equal dict
  (\<open>list_index_first\<close>). Where the inventory has the same dict at positions 0 and 2, the
  second one is resolved to position 0 as well; the identifier \<open>0\<close> is taken, and the
  insertion raises \<open>TclError\<close>, leaving a view of one row for two records. This happens
  under the substring filter and under the category filter. When the records are pairwise
  different, \<open>index\<close> resolves each record to its own position (\<open>list_index_distinct\<close>).
\<close>

theorem filtered_view_twin_records:
  "realtime_filter twin_inventory ''wax''
     = ([(Given ''0'', ''W1'', ''Wax A'', ''Coating & Wax'', ''5'')], Some TclError)
   \<and> filter_by_category twin_inventory ''Coating & Wax''
     = ([(Given ''0'', ''W1'', ''Wax A'', ''Coating & Wax'', ''5'')], Some TclError)
   \<and> list_index twin_inventory (twin_inventory ! 2) = Some 0"
  by code_simp


section \<open>Save and load\<close>


lemma write_json_cases:
  "write_json fs path payload = (fs', r) \<Longrightarrow>
   (r = Some OSError \<and> fs' = fs)
   \<or> (r = None \<and> fs' = fs\<lparr>files := (files fs)(path \<mapsto> Document payload)\<rparr>)"
  by (auto simp: write_json_def split: if_splits)







end
